theory Spec2Isabelle
  imports Complex_Main
begin

section \<open>Data model of backend/server.py\<close>

text \<open>
  The stock ledger of the goods receipt and issue service: the collections of the
  database are lists in insertion order, a document of a collection is a record with
  the fields of its pydantic model. Quantities are Python floats; they are idealised
  here as exact reals, so that the theorems speak about the sign and bookkeeping logic
  of the code and not about rounding. Dates and timestamps are abstract numbers; a
  \<open>datetime.date\<close> and a \<open>datetime.datetime\<close> stay apart where a document is
  handed to the database.
\<close>

type_synonym datetime = nat
type_synonym date = nat

datatype MovementType =
    GOODS_RECEIPT \<comment> \<open>"101"\<close>
  | GOODS_ISSUE_CONSUMPTION \<comment> \<open>"201"\<close>
  | GOODS_ISSUE_SALES \<comment> \<open>"601"\<close>
  | STOCK_TRANSFER \<comment> \<open>"311"\<close>
  | RETURN_TO_VENDOR \<comment> \<open>"122"\<close>
  | RETURN_FROM_CUSTOMER \<comment> \<open>"161"\<close>

text \<open>The string a movement type is stored as (the enum is a \<open>str\<close> enum).\<close>

fun MovementType_value :: "MovementType \<Rightarrow> string" where
  "MovementType_value GOODS_RECEIPT = ''101''"
| "MovementType_value GOODS_ISSUE_CONSUMPTION = ''201''"
| "MovementType_value GOODS_ISSUE_SALES = ''601''"
| "MovementType_value STOCK_TRANSFER = ''311''"
| "MovementType_value RETURN_TO_VENDOR = ''122''"
| "MovementType_value RETURN_FROM_CUSTOMER = ''161''"

datatype UnitOfMeasure = PC | KG | LT | MT | EA

text \<open>The string a unit of measure is stored as (the enum is a \<open>str\<close> enum).\<close>

fun UnitOfMeasure_value :: "UnitOfMeasure \<Rightarrow> string" where
  "UnitOfMeasure_value PC = ''PC''"
| "UnitOfMeasure_value KG = ''KG''"
| "UnitOfMeasure_value LT = ''LT''"
| "UnitOfMeasure_value MT = ''MT''"
| "UnitOfMeasure_value EA = ''EA''"

record Location =
  loc_id :: string
  loc_plant_code :: string
  loc_plant_name :: string
  loc_storage_location :: string
  loc_description :: "string option"
  loc_created_at :: datetime

record Material =
  mat_id :: string
  mat_material_code :: string
  mat_material_description :: string
  mat_material_group :: "string option"
  mat_unit_of_measure :: UnitOfMeasure
  mat_created_at :: datetime

record GoodsReceiptItem =
  gri_material_id :: string
  gri_material_code :: string
  gri_quantity :: real
  gri_unit_price :: "real option"
  gri_total_amount :: "real option"

record GoodsReceipt =
  gr_id :: string
  gr_document_number :: string
  gr_po_id :: "string option"
  gr_po_number :: "string option"
  gr_invoice_id :: "string option"
  gr_vendor_code :: string
  gr_vendor_name :: string
  gr_location_id :: string
  gr_plant_code :: string
  gr_storage_location :: string
  gr_posting_date :: date
  gr_document_date :: date
  gr_items :: "GoodsReceiptItem list"
  gr_header_text :: "string option"
  gr_created_at :: datetime

record GoodsReceiptCreate =
  grc_po_id :: "string option"
  grc_po_number :: "string option"
  grc_invoice_id :: "string option"
  grc_vendor_code :: string
  grc_vendor_name :: string
  grc_location_id :: string
  grc_posting_date :: date
  grc_document_date :: date
  grc_items :: "GoodsReceiptItem list"
  grc_header_text :: "string option"

record GoodsIssueItem =
  gii_material_id :: string
  gii_material_code :: string
  gii_quantity :: real
  gii_cost_center :: "string option"

record GoodsIssue =
  gi_id :: string
  gi_document_number :: string
  gi_movement_type :: MovementType
  gi_location_id :: string
  gi_plant_code :: string
  gi_storage_location :: string
  gi_posting_date :: date
  gi_document_date :: date
  gi_items :: "GoodsIssueItem list"
  gi_header_text :: "string option"
  gi_created_at :: datetime

record GoodsIssueCreate =
  gic_movement_type :: MovementType
  gic_location_id :: string
  gic_posting_date :: date
  gic_document_date :: date
  gic_items :: "GoodsIssueItem list"
  gic_header_text :: "string option"

record StockMovement =
  sm_id :: string
  sm_material_id :: string
  sm_material_code :: string
  sm_location_id :: string
  sm_plant_code :: string
  sm_storage_location :: string
  sm_movement_type :: MovementType
  sm_document_number :: string
  sm_quantity :: real
  sm_unit_of_measure :: string
  sm_posting_date :: date
  sm_reference_document :: "string option"
  sm_created_at :: datetime

record CurrentStock =
  cs_id :: string
  cs_material_id :: string
  cs_material_code :: string
  cs_material_description :: string
  cs_location_id :: string
  cs_plant_code :: string
  cs_storage_location :: string
  cs_current_quantity :: real
  cs_unit_of_measure :: string
  cs_last_updated :: datetime

section \<open>The database and the generated values\<close>

text \<open>
  \<open>uuid.uuid4()\<close> and \<open>datetime.utcnow()\<close> read the outside world. The environment
  fixes what the n-th such call returns, and the state counts the calls made so far, so
  that every default factory of a model is one numbered call, in the order of the
  fields of the model.
\<close>

record env =
  uuid4 :: "nat \<Rightarrow> string"
  utcnow :: "nat \<Rightarrow> datetime"

record state =
  locations :: "Location list"
  materials :: "Material list"
  goods_receipts :: "GoodsReceipt list"
  goods_issues :: "GoodsIssue list"
  stock_movements :: "StockMovement list"
  current_stock :: "CurrentStock list"
  calls :: nat

text \<open>
  The exceptions of a request: the \<open>HTTPException\<close> the handlers raise themselves, and
  the \<open>bson.errors.InvalidDocument\<close> the driver raises when a document holds a value
  it cannot encode.
\<close>

datatype error = HTTPException nat string | InvalidDocument

text \<open>
  \<open>collection.update_one(filter, {"$set": ...})\<close>: the first document that matches
  the filter is changed, the others are left as they are.
\<close>

fun update_one :: "('a \<Rightarrow> bool) \<Rightarrow> ('a \<Rightarrow> 'a) \<Rightarrow> 'a list \<Rightarrow> 'a list" where
  "update_one P f [] = []"
| "update_one P f (x # xs) = (if P x then f x # xs else x # update_one P f xs)"

section \<open>Documents handed to the database\<close>

text \<open>
  \<open>model.dict()\<close> is a dictionary of Python values, and \<open>insert_one\<close> encodes it as
  BSON before anything is written. The encoder knows strings (the \<open>str\<close> enums among
  them), floats, \<open>None\<close>, \<open>datetime.datetime\<close>, lists and dictionaries. It has no
  encoding for a \<open>datetime.date\<close>, which is not a \<open>datetime.datetime\<close>: a document
  that holds one anywhere makes \<open>insert_one\<close> raise \<open>InvalidDocument\<close>, and nothing
  is stored.
\<close>

datatype pyvalue =
    PyStr string
  | PyFloat real
  | PyNone
  | PyDatetime datetime
  | PyDate date
  | PyList "pyvalue list"
  | PyDict "(string \<times> pyvalue) list"

fun bson_encodable :: "pyvalue \<Rightarrow> bool" where
  "bson_encodable (PyStr s) = True"
| "bson_encodable (PyFloat x) = True"
| "bson_encodable PyNone = True"
| "bson_encodable (PyDatetime t) = True"
| "bson_encodable (PyDate d) = False"
| "bson_encodable (PyList xs) = list_all bson_encodable xs"
| "bson_encodable (PyDict kvs) = list_all bson_encodable (map snd kvs)"

definition insert_one ::
  "('a \<Rightarrow> (string \<times> pyvalue) list) \<Rightarrow> 'a \<Rightarrow> 'a list \<Rightarrow> error + 'a list"
where
  "insert_one to_dict document collection =
     (if bson_encodable (PyDict (to_dict document))
      then Inr (collection @ [document]) else Inl InvalidDocument)"

fun optional_str :: "string option \<Rightarrow> pyvalue" where
  "optional_str None = PyNone"
| "optional_str (Some s) = PyStr s"

fun optional_float :: "real option \<Rightarrow> pyvalue" where
  "optional_float None = PyNone"
| "optional_float (Some x) = PyFloat x"

definition GoodsReceiptItem_dict :: "GoodsReceiptItem \<Rightarrow> (string \<times> pyvalue) list" where
  "GoodsReceiptItem_dict i =
     [(''material_id'', PyStr (gri_material_id i)),
      (''material_code'', PyStr (gri_material_code i)),
      (''quantity'', PyFloat (gri_quantity i)),
      (''unit_price'', optional_float (gri_unit_price i)),
      (''total_amount'', optional_float (gri_total_amount i))]"

definition GoodsReceipt_dict :: "GoodsReceipt \<Rightarrow> (string \<times> pyvalue) list" where
  "GoodsReceipt_dict g =
     [(''id'', PyStr (gr_id g)),
      (''document_number'', PyStr (gr_document_number g)),
      (''po_id'', optional_str (gr_po_id g)),
      (''po_number'', optional_str (gr_po_number g)),
      (''invoice_id'', optional_str (gr_invoice_id g)),
      (''vendor_code'', PyStr (gr_vendor_code g)),
      (''vendor_name'', PyStr (gr_vendor_name g)),
      (''location_id'', PyStr (gr_location_id g)),
      (''plant_code'', PyStr (gr_plant_code g)),
      (''storage_location'', PyStr (gr_storage_location g)),
      (''posting_date'', PyDate (gr_posting_date g)),
      (''document_date'', PyDate (gr_document_date g)),
      (''items'', PyList (map (\<lambda>i. PyDict (GoodsReceiptItem_dict i)) (gr_items g))),
      (''header_text'', optional_str (gr_header_text g)),
      (''created_at'', PyDatetime (gr_created_at g))]"

definition GoodsIssueItem_dict :: "GoodsIssueItem \<Rightarrow> (string \<times> pyvalue) list" where
  "GoodsIssueItem_dict i =
     [(''material_id'', PyStr (gii_material_id i)),
      (''material_code'', PyStr (gii_material_code i)),
      (''quantity'', PyFloat (gii_quantity i)),
      (''cost_center'', optional_str (gii_cost_center i))]"

definition GoodsIssue_dict :: "GoodsIssue \<Rightarrow> (string \<times> pyvalue) list" where
  "GoodsIssue_dict g =
     [(''id'', PyStr (gi_id g)),
      (''document_number'', PyStr (gi_document_number g)),
      (''movement_type'', PyStr (MovementType_value (gi_movement_type g))),
      (''location_id'', PyStr (gi_location_id g)),
      (''plant_code'', PyStr (gi_plant_code g)),
      (''storage_location'', PyStr (gi_storage_location g)),
      (''posting_date'', PyDate (gi_posting_date g)),
      (''document_date'', PyDate (gi_document_date g)),
      (''items'', PyList (map (\<lambda>i. PyDict (GoodsIssueItem_dict i)) (gi_items g))),
      (''header_text'', optional_str (gi_header_text g)),
      (''created_at'', PyDatetime (gi_created_at g))]"

definition StockMovement_dict :: "StockMovement \<Rightarrow> (string \<times> pyvalue) list" where
  "StockMovement_dict m =
     [(''id'', PyStr (sm_id m)),
      (''material_id'', PyStr (sm_material_id m)),
      (''material_code'', PyStr (sm_material_code m)),
      (''location_id'', PyStr (sm_location_id m)),
      (''plant_code'', PyStr (sm_plant_code m)),
      (''storage_location'', PyStr (sm_storage_location m)),
      (''movement_type'', PyStr (MovementType_value (sm_movement_type m))),
      (''document_number'', PyStr (sm_document_number m)),
      (''quantity'', PyFloat (sm_quantity m)),
      (''unit_of_measure'', PyStr (sm_unit_of_measure m)),
      (''posting_date'', PyDate (sm_posting_date m)),
      (''reference_document'', optional_str (sm_reference_document m)),
      (''created_at'', PyDatetime (sm_created_at m))]"

definition CurrentStock_dict :: "CurrentStock \<Rightarrow> (string \<times> pyvalue) list" where
  "CurrentStock_dict r =
     [(''id'', PyStr (cs_id r)),
      (''material_id'', PyStr (cs_material_id r)),
      (''material_code'', PyStr (cs_material_code r)),
      (''material_description'', PyStr (cs_material_description r)),
      (''location_id'', PyStr (cs_location_id r)),
      (''plant_code'', PyStr (cs_plant_code r)),
      (''storage_location'', PyStr (cs_storage_location r)),
      (''current_quantity'', PyFloat (cs_current_quantity r)),
      (''unit_of_measure'', PyStr (cs_unit_of_measure r)),
      (''last_updated'', PyDatetime (cs_last_updated r))]"

text \<open>\<open>str.upper()\<close> on the ASCII letters, which is all a uuid holds.\<close>

definition upper_char :: "char \<Rightarrow> char" where
  "upper_char c =
     (if (97::nat) \<le> of_char c \<and> of_char c \<le> (122::nat)
      then char_of (of_char c - (32::nat)) else c)"

definition upper :: "string \<Rightarrow> string" where
  "upper s = map upper_char s"

section \<open>update\_stock\<close>

text \<open>
  A balance row holds strings, a float and a \<open>datetime.datetime\<close>, so its
  \<open>insert_one\<close> always stores it (lemma \<open>insert_one_CurrentStock\<close> below): the
  insert is written as the append it is.
\<close>

definition update_stock ::
  "env \<Rightarrow> string \<Rightarrow> string \<Rightarrow> real \<Rightarrow> MovementType \<Rightarrow> string \<Rightarrow> state \<Rightarrow> state \<times> (error + unit)"
where
  "update_stock e material_id location_id quantity movement_type unit_of_measure s =
     (case find (\<lambda>m. mat_id m = material_id) (materials s) of
        None \<Rightarrow> (s, Inl (HTTPException 404 ''Material or Location not found''))
      | Some material \<Rightarrow>
     (case find (\<lambda>l. loc_id l = location_id) (locations s) of
        None \<Rightarrow> (s, Inl (HTTPException 404 ''Material or Location not found''))
      | Some location \<Rightarrow>
     (let stock_record =
            find (\<lambda>r. cs_material_id r = material_id \<and> cs_location_id r = location_id)
              (current_stock s);
          quantity_change =
            (if movement_type \<in>
                  set [GOODS_ISSUE_CONSUMPTION, GOODS_ISSUE_SALES, RETURN_TO_VENDOR]
             then - quantity else quantity)
      in case stock_record of
           Some stock_record \<Rightarrow>
             (s\<lparr>current_stock :=
                  update_one (\<lambda>r. cs_id r = cs_id stock_record)
                    (\<lambda>r. r\<lparr>cs_current_quantity :=
                              cs_current_quantity stock_record + quantity_change,
                            cs_last_updated := utcnow e (calls s)\<rparr>)
                    (current_stock s),
                calls := calls s + 1\<rparr>,
              Inr ())
         | None \<Rightarrow>
             (s\<lparr>current_stock :=
                  current_stock s @
                    [\<lparr>cs_id = uuid4 e (calls s),
                      cs_material_id = material_id,
                      cs_material_code = mat_material_code material,
                      cs_material_description = mat_material_description material,
                      cs_location_id = location_id,
                      cs_plant_code = loc_plant_code location,
                      cs_storage_location = loc_storage_location location,
                      cs_current_quantity = quantity_change,
                      cs_unit_of_measure = unit_of_measure,
                      cs_last_updated = utcnow e (calls s + 1)\<rparr>],
                calls := calls s + 2\<rparr>,
              Inr ()))))"

section \<open>create\_goods\_receipt\<close>

text \<open>
  \<open>GoodsReceipt(**gr_dict)\<close>: the fields of the request, the plant code and storage
  location of the location, and the three default factories (id, document number,
  creation time), which are the calls \<open>c\<close>, \<open>c + 1\<close> and \<open>c + 2\<close>.
\<close>

definition new_GoodsReceipt :: "env \<Rightarrow> nat \<Rightarrow> GoodsReceiptCreate \<Rightarrow> Location \<Rightarrow> GoodsReceipt" where
  "new_GoodsReceipt e c gr location =
     \<lparr>gr_id = uuid4 e c,
      gr_document_number = ''GR'' @ upper (take 8 (uuid4 e (c + 1))),
      gr_po_id = grc_po_id gr,
      gr_po_number = grc_po_number gr,
      gr_invoice_id = grc_invoice_id gr,
      gr_vendor_code = grc_vendor_code gr,
      gr_vendor_name = grc_vendor_name gr,
      gr_location_id = grc_location_id gr,
      gr_plant_code = loc_plant_code location,
      gr_storage_location = loc_storage_location location,
      gr_posting_date = grc_posting_date gr,
      gr_document_date = grc_document_date gr,
      gr_items = grc_items gr,
      gr_header_text = grc_header_text gr,
      gr_created_at = utcnow e (c + 2)\<rparr>"

text \<open>
  The \<open>StockMovement\<close> of a receipt line; its default factories (id, creation time) are
  the calls \<open>c\<close> and \<open>c + 1\<close>.
\<close>

definition receipt_movement ::
  "env \<Rightarrow> nat \<Rightarrow> GoodsReceiptCreate \<Rightarrow> Location \<Rightarrow> GoodsReceipt \<Rightarrow> GoodsReceiptItem \<Rightarrow> Material
     \<Rightarrow> StockMovement"
where
  "receipt_movement e c gr location gr_obj item material =
     \<lparr>sm_id = uuid4 e c,
      sm_material_id = gri_material_id item,
      sm_material_code = gri_material_code item,
      sm_location_id = grc_location_id gr,
      sm_plant_code = loc_plant_code location,
      sm_storage_location = loc_storage_location location,
      sm_movement_type = GOODS_RECEIPT,
      sm_document_number = gr_document_number gr_obj,
      sm_quantity = gri_quantity item,
      sm_unit_of_measure = UnitOfMeasure_value (mat_unit_of_measure material),
      sm_posting_date = grc_posting_date gr,
      sm_reference_document = grc_po_number gr,
      sm_created_at = utcnow e (c + 1)\<rparr>"

text \<open>
  The loop over the items of the stored receipt. An item whose material is not in the
  database is passed over. An exception of \<open>update_stock\<close> or of the insert of the
  stock movement leaves the loop with what was written before it.
\<close>

fun receipt_items ::
  "env \<Rightarrow> GoodsReceiptCreate \<Rightarrow> Location \<Rightarrow> GoodsReceipt \<Rightarrow> GoodsReceiptItem list \<Rightarrow> state
     \<Rightarrow> state \<times> (error + unit)"
where
  "receipt_items e gr location gr_obj [] s = (s, Inr ())"
| "receipt_items e gr location gr_obj (item # items) s =
     (case find (\<lambda>m. mat_id m = gri_material_id item) (materials s) of
        None \<Rightarrow> receipt_items e gr location gr_obj items s
      | Some material \<Rightarrow>
          (case update_stock e (gri_material_id item) (grc_location_id gr) (gri_quantity item)
                  GOODS_RECEIPT (UnitOfMeasure_value (mat_unit_of_measure material)) s of
             (s1, Inl err) \<Rightarrow> (s1, Inl err)
           | (s1, Inr u) \<Rightarrow>
               (case insert_one StockMovement_dict
                       (receipt_movement e (calls s1) gr location gr_obj item material)
                       (stock_movements s1) of
                  Inl err \<Rightarrow> (s1\<lparr>calls := calls s1 + 2\<rparr>, Inl err)
                | Inr movements \<Rightarrow>
                    receipt_items e gr location gr_obj items
                      (s1\<lparr>stock_movements := movements, calls := calls s1 + 2\<rparr>))))"

definition create_goods_receipt ::
  "env \<Rightarrow> GoodsReceiptCreate \<Rightarrow> state \<Rightarrow> state \<times> (error + GoodsReceipt)"
where
  "create_goods_receipt e gr s =
     (case find (\<lambda>l. loc_id l = grc_location_id gr) (locations s) of
        None \<Rightarrow> (s, Inl (HTTPException 404 ''Location not found''))
      | Some location \<Rightarrow>
          (let gr_obj = new_GoodsReceipt e (calls s) gr location
           in case insert_one GoodsReceipt_dict gr_obj (goods_receipts s) of
                Inl err \<Rightarrow> (s\<lparr>calls := calls s + 3\<rparr>, Inl err)
              | Inr receipts \<Rightarrow>
                  (case receipt_items e gr location gr_obj (gr_items gr_obj)
                          (s\<lparr>goods_receipts := receipts, calls := calls s + 3\<rparr>) of
                     (s1, Inl err) \<Rightarrow> (s1, Inl err)
                   | (s1, Inr u) \<Rightarrow> (s1, Inr gr_obj))))"

section \<open>create\_goods\_issue\<close>

text \<open>\<open>GoodsIssue(**gi_dict)\<close>, with its three default factories.\<close>

definition new_GoodsIssue :: "env \<Rightarrow> nat \<Rightarrow> GoodsIssueCreate \<Rightarrow> Location \<Rightarrow> GoodsIssue" where
  "new_GoodsIssue e c gi location =
     \<lparr>gi_id = uuid4 e c,
      gi_document_number = ''GI'' @ upper (take 8 (uuid4 e (c + 1))),
      gi_movement_type = gic_movement_type gi,
      gi_location_id = gic_location_id gi,
      gi_plant_code = loc_plant_code location,
      gi_storage_location = loc_storage_location location,
      gi_posting_date = gic_posting_date gi,
      gi_document_date = gic_document_date gi,
      gi_items = gic_items gi,
      gi_header_text = gic_header_text gi,
      gi_created_at = utcnow e (c + 2)\<rparr>"

text \<open>The \<open>StockMovement\<close> of an issue line, with its two default factories.\<close>

definition issue_movement ::
  "env \<Rightarrow> nat \<Rightarrow> GoodsIssueCreate \<Rightarrow> Location \<Rightarrow> GoodsIssue \<Rightarrow> GoodsIssueItem \<Rightarrow> Material
     \<Rightarrow> StockMovement"
where
  "issue_movement e c gi location gi_obj item material =
     \<lparr>sm_id = uuid4 e c,
      sm_material_id = gii_material_id item,
      sm_material_code = gii_material_code item,
      sm_location_id = gic_location_id gi,
      sm_plant_code = loc_plant_code location,
      sm_storage_location = loc_storage_location location,
      sm_movement_type = gic_movement_type gi,
      sm_document_number = gi_document_number gi_obj,
      sm_quantity = - gii_quantity item,
      sm_unit_of_measure = UnitOfMeasure_value (mat_unit_of_measure material),
      sm_posting_date = gic_posting_date gi,
      sm_reference_document = None,
      sm_created_at = utcnow e (c + 1)\<rparr>"

fun issue_items ::
  "env \<Rightarrow> GoodsIssueCreate \<Rightarrow> Location \<Rightarrow> GoodsIssue \<Rightarrow> GoodsIssueItem list \<Rightarrow> state
     \<Rightarrow> state \<times> (error + unit)"
where
  "issue_items e gi location gi_obj [] s = (s, Inr ())"
| "issue_items e gi location gi_obj (item # items) s =
     (case find (\<lambda>m. mat_id m = gii_material_id item) (materials s) of
        None \<Rightarrow> issue_items e gi location gi_obj items s
      | Some material \<Rightarrow>
          (case update_stock e (gii_material_id item) (gic_location_id gi) (gii_quantity item)
                  (gic_movement_type gi) (UnitOfMeasure_value (mat_unit_of_measure material)) s of
             (s1, Inl err) \<Rightarrow> (s1, Inl err)
           | (s1, Inr u) \<Rightarrow>
               (case insert_one StockMovement_dict
                       (issue_movement e (calls s1) gi location gi_obj item material)
                       (stock_movements s1) of
                  Inl err \<Rightarrow> (s1\<lparr>calls := calls s1 + 2\<rparr>, Inl err)
                | Inr movements \<Rightarrow>
                    issue_items e gi location gi_obj items
                      (s1\<lparr>stock_movements := movements, calls := calls s1 + 2\<rparr>))))"

definition create_goods_issue ::
  "env \<Rightarrow> GoodsIssueCreate \<Rightarrow> state \<Rightarrow> state \<times> (error + GoodsIssue)"
where
  "create_goods_issue e gi s =
     (case find (\<lambda>l. loc_id l = gic_location_id gi) (locations s) of
        None \<Rightarrow> (s, Inl (HTTPException 404 ''Location not found''))
      | Some location \<Rightarrow>
          (let gi_obj = new_GoodsIssue e (calls s) gi location
           in case insert_one GoodsIssue_dict gi_obj (goods_issues s) of
                Inl err \<Rightarrow> (s\<lparr>calls := calls s + 3\<rparr>, Inl err)
              | Inr issues \<Rightarrow>
                  (case issue_items e gi location gi_obj (gi_items gi_obj)
                          (s\<lparr>goods_issues := issues, calls := calls s + 3\<rparr>) of
                     (s1, Inl err) \<Rightarrow> (s1, Inl err)
                   | (s1, Inr u) \<Rightarrow> (s1, Inr gi_obj))))"

section \<open>The sign convention of the specification and the observations\<close>

text \<open>
  The direction table as the specification words it: receipt, transfer and return from
  customer increase; issue for consumption, issue for sales and return to vendor
  decrease. \<open>spec_signed_quantity\<close> is the specification's sign derivation. Both are
  written from the specification, to be compared with what the code computes.
\<close>

datatype direction = increase | decrease

fun spec_direction :: "MovementType \<Rightarrow> direction" where
  "spec_direction GOODS_RECEIPT = increase"
| "spec_direction STOCK_TRANSFER = increase"
| "spec_direction RETURN_FROM_CUSTOMER = increase"
| "spec_direction GOODS_ISSUE_CONSUMPTION = decrease"
| "spec_direction GOODS_ISSUE_SALES = decrease"
| "spec_direction RETURN_TO_VENDOR = decrease"

definition spec_signed_quantity :: "MovementType \<Rightarrow> real \<Rightarrow> real" where
  "spec_signed_quantity movement_type raw_quantity =
     (if spec_direction movement_type = increase then raw_quantity else - raw_quantity)"

text \<open>
  The balance row of a (material, location) pair is the document the lookup of
  \<open>update_stock\<close> returns; the ledger sum adds the quantity fields of the stock
  movements recorded for the pair.
\<close>

definition balance_row :: "state \<Rightarrow> string \<Rightarrow> string \<Rightarrow> CurrentStock option" where
  "balance_row s material_id location_id =
     find (\<lambda>r. cs_material_id r = material_id \<and> cs_location_id r = location_id)
       (current_stock s)"

definition stock_quantity :: "state \<Rightarrow> string \<Rightarrow> string \<Rightarrow> real option" where
  "stock_quantity s material_id location_id =
     map_option cs_current_quantity (balance_row s material_id location_id)"





section \<open>Example data\<close>

text \<open>
  One plant location and one material, as the API test of the repository creates them,
  and the documents the concrete runs below post.
\<close>

definition example_env :: env where
  "example_env = \<lparr>uuid4 = (\<lambda>n. ''uuid-'' @ replicate n (CHR ''x'')), utcnow = (\<lambda>n. n)\<rparr>"

definition example_location :: Location where
  "example_location =
     \<lparr>loc_id = ''L1'', loc_plant_code = ''P001'', loc_plant_name = ''Main Plant'',
      loc_storage_location = ''SL01'', loc_description = Some ''Main storage location'',
      loc_created_at = 0\<rparr>"

definition example_material :: Material where
  "example_material =
     \<lparr>mat_id = ''M1'', mat_material_code = ''MAT001'',
      mat_material_description = ''Test Material 001'',
      mat_material_group = Some ''RAW_MATERIALS'', mat_unit_of_measure = PC,
      mat_created_at = 0\<rparr>"

definition example_state :: state where
  "example_state =
     \<lparr>locations = [example_location], materials = [example_material],
      goods_receipts = [], goods_issues = [], stock_movements = [], current_stock = [],
      calls = 0\<rparr>"

definition example_row :: CurrentStock where
  "example_row =
     \<lparr>cs_id = ''S1'', cs_material_id = ''M1'', cs_material_code = ''MAT001'',
      cs_material_description = ''Test Material 001'', cs_location_id = ''L1'',
      cs_plant_code = ''P001'', cs_storage_location = ''SL01'', cs_current_quantity = 70,
      cs_unit_of_measure = ''PC'', cs_last_updated = 0\<rparr>"

definition stocked_state :: state where
  "stocked_state = example_state\<lparr>current_stock := [example_row]\<rparr>"

definition receipt_of :: "string \<Rightarrow> GoodsReceiptItem list \<Rightarrow> GoodsReceiptCreate" where
  "receipt_of location_id items =
     \<lparr>grc_po_id = None, grc_po_number = Some ''PO001'', grc_invoice_id = None,
      grc_vendor_code = ''V001'', grc_vendor_name = ''Test Vendor'',
      grc_location_id = location_id, grc_posting_date = 1, grc_document_date = 1,
      grc_items = items, grc_header_text = None\<rparr>"

definition issue_of :: "MovementType \<Rightarrow> string \<Rightarrow> GoodsIssueItem list \<Rightarrow> GoodsIssueCreate" where
  "issue_of movement_type location_id items =
     \<lparr>gic_movement_type = movement_type, gic_location_id = location_id,
      gic_posting_date = 1, gic_document_date = 1, gic_items = items,
      gic_header_text = None\<rparr>"

definition receipt_line :: "string \<Rightarrow> real \<Rightarrow> GoodsReceiptItem" where
  "receipt_line material_id quantity =
     \<lparr>gri_material_id = material_id, gri_material_code = ''MAT001'',
      gri_quantity = quantity, gri_unit_price = None, gri_total_amount = None\<rparr>"

definition issue_line :: "string \<Rightarrow> real \<Rightarrow> GoodsIssueItem" where
  "issue_line material_id quantity =
     \<lparr>gii_material_id = material_id, gii_material_code = ''MAT001'',
      gii_quantity = quantity, gii_cost_center = None\<rparr>"

section \<open>Lemmas on the collections\<close>

lemma find_in_set: "find P xs = Some x \<Longrightarrow> x \<in> set xs \<and> P x"
  by (induction xs) (auto split: if_splits)

lemma update_one_by_key:
  "find P xs = Some x \<Longrightarrow> distinct (map g xs) \<Longrightarrow>
   update_one (\<lambda>r. g r = g x) f xs = map (\<lambda>y. if y = x then f x else y) xs"
proof (induction xs)
  case Nil
  then show ?case by simp
next
  case (Cons y ys)
  show ?case
  proof (cases "P y")
    case True
    with Cons.prems have xy: "x = y" by simp
    with Cons.prems have "x \<notin> set ys" by auto
    then have "map (\<lambda>z. if z = x then f x else z) ys = ys"
      by (intro map_idI) auto
    with xy show ?thesis by simp
  next
    case False
    with Cons.prems have fy: "find P ys = Some x" by simp
    then have "x \<in> set ys" using find_in_set by fast
    with Cons.prems have "g y \<noteq> g x" by auto
    moreover then have "y \<noteq> x" by auto
    ultimately show ?thesis using Cons.IH[OF fy] Cons.prems by simp
  qed
qed

lemma find_map_replace:
  "Q v = Q x \<Longrightarrow>
   find Q (map (\<lambda>y. if y = x then v else y) xs) =
   map_option (\<lambda>y. if y = x then v else y) (find Q xs)"
  by (induction xs) auto

lemma find_append_None: "find P xs = None \<Longrightarrow> find P (xs @ ys) = find P ys"
  by (induction xs) (auto split: if_splits)

lemma update_stock_error:
  "find (\<lambda>m. mat_id m = material_id) (materials s) = None \<or>
   find (\<lambda>l. loc_id l = location_id) (locations s) = None \<Longrightarrow>
   update_stock e material_id location_id q mt uom s =
     (s, Inl (HTTPException 404 ''Material or Location not found''))"
  by (auto simp: update_stock_def split: option.splits)

lemma update_stock_create:
  assumes "find (\<lambda>m. mat_id m = material_id) (materials s) = Some material"
    and "find (\<lambda>l. loc_id l = location_id) (locations s) = Some location"
    and "balance_row s material_id location_id = None"
  shows "update_stock e material_id location_id q mt uom s =
     (s\<lparr>current_stock :=
          current_stock s @
            [\<lparr>cs_id = uuid4 e (calls s),
              cs_material_id = material_id,
              cs_material_code = mat_material_code material,
              cs_material_description = mat_material_description material,
              cs_location_id = location_id,
              cs_plant_code = loc_plant_code location,
              cs_storage_location = loc_storage_location location,
              cs_current_quantity = spec_signed_quantity mt q,
              cs_unit_of_measure = uom,
              cs_last_updated = utcnow e (calls s + 1)\<rparr>],
        calls := calls s + 2\<rparr>, Inr ())"
  using assms
  by (cases mt) (simp_all add: update_stock_def balance_row_def spec_signed_quantity_def)

lemma update_stock_modify:
  assumes "find (\<lambda>m. mat_id m = material_id) (materials s) = Some material"
    and "find (\<lambda>l. loc_id l = location_id) (locations s) = Some location"
    and "balance_row s material_id location_id = Some r"
    and "distinct (map cs_id (current_stock s))"
  shows "update_stock e material_id location_id q mt uom s =
     (s\<lparr>current_stock :=
          map (\<lambda>x. if x = r
                 then r\<lparr>cs_current_quantity := cs_current_quantity r + spec_signed_quantity mt q,
                        cs_last_updated := utcnow e (calls s)\<rparr>
                 else x) (current_stock s),
        calls := calls s + 1\<rparr>, Inr ())"
proof -
  from assms(3) have f: "find (\<lambda>r. cs_material_id r = material_id \<and> cs_location_id r = location_id)
       (current_stock s) = Some r" by (simp add: balance_row_def)
  show ?thesis
    using assms(1,2) f update_one_by_key[OF f assms(4)]
    by (cases mt) (simp_all add: update_stock_def spec_signed_quantity_def)
qed


lemma update_stock_step:
  assumes "find (\<lambda>m. mat_id m = material_id) (materials s) \<noteq> None"
    and "find (\<lambda>l. loc_id l = location_id) (locations s) \<noteq> None"
  shows "\<exists>s1. update_stock e material_id location_id q mt uom s = (s1, Inr ()) \<and>
           materials s1 = materials s \<and> locations s1 = locations s \<and>
           stock_movements s1 = stock_movements s \<and>
           goods_receipts s1 = goods_receipts s \<and> goods_issues s1 = goods_issues s"
  using assms by (auto simp: update_stock_def Let_def split: option.splits)

section \<open>Lemmas on the inserts and the postings\<close>

text \<open>
  A balance row is always encodable. A goods receipt, a goods issue and a stock movement
  each hold a \<open>datetime.date\<close> (posting date, document date), so their insert always
  raises: a posting whose location resolves ends at the insert of its document, with
  nothing stored, and never reaches the loop over its items. The loops themselves pass
  over a line whose material does not resolve, and the stock movement of an issue line
  carries the negated quantity of the line.
\<close>

lemma insert_one_CurrentStock:
  "insert_one CurrentStock_dict r rows = Inr (rows @ [r])"
  by (simp add: insert_one_def CurrentStock_dict_def)

lemma insert_one_GoodsReceipt: "insert_one GoodsReceipt_dict g receipts = Inl InvalidDocument"
  by (simp add: insert_one_def GoodsReceipt_dict_def)

lemma insert_one_GoodsIssue: "insert_one GoodsIssue_dict g issues = Inl InvalidDocument"
  by (simp add: insert_one_def GoodsIssue_dict_def)

lemma insert_one_StockMovement: "insert_one StockMovement_dict m movements = Inl InvalidDocument"
  by (simp add: insert_one_def StockMovement_dict_def)

lemma create_goods_receipt_found:
  "find (\<lambda>l. loc_id l = grc_location_id gr) (locations s) = Some location \<Longrightarrow>
   create_goods_receipt e gr s = (s\<lparr>calls := calls s + 3\<rparr>, Inl InvalidDocument)"
  by (simp add: create_goods_receipt_def insert_one_GoodsReceipt)

lemma create_goods_issue_found:
  "find (\<lambda>l. loc_id l = gic_location_id gi) (locations s) = Some location \<Longrightarrow>
   create_goods_issue e gi s = (s\<lparr>calls := calls s + 3\<rparr>, Inl InvalidDocument)"
  by (simp add: create_goods_issue_def insert_one_GoodsIssue)



lemma receipt_items_skip:
  "receipt_items e gr location gr_obj items s =
   receipt_items e gr location gr_obj
     (filter (\<lambda>i. find (\<lambda>m. mat_id m = gri_material_id i) (materials s) \<noteq> None) items) s"
proof (induction items arbitrary: s)
  case Nil
  then show ?case by simp
next
  case (Cons item items)
  show ?case
  proof (cases "find (\<lambda>m. mat_id m = gri_material_id item) (materials s)")
    case None
    then show ?thesis using Cons.IH[of s] by simp
  next
    case (Some material)
    then show ?thesis
      by (simp add: insert_one_StockMovement split: prod.splits sum.splits)
  qed
qed

lemma issue_items_skip:
  "issue_items e gi location gi_obj items s =
   issue_items e gi location gi_obj
     (filter (\<lambda>i. find (\<lambda>m. mat_id m = gii_material_id i) (materials s) \<noteq> None) items) s"
proof (induction items arbitrary: s)
  case Nil
  then show ?case by simp
next
  case (Cons item items)
  show ?case
  proof (cases "find (\<lambda>m. mat_id m = gii_material_id item) (materials s)")
    case None
    then show ?thesis using Cons.IH[of s] by simp
  next
    case (Some material)
    then show ?thesis
      by (simp add: insert_one_StockMovement split: prod.splits sum.splits)
  qed
qed

lemma issue_movement_quantity:
  "sm_quantity (issue_movement e c gi location gi_obj item material) = - gii_quantity item"
  by (simp add: issue_movement_def)

lemmas example_defs =
  example_state_def example_location_def example_material_def
  receipt_of_def issue_of_def receipt_line_def issue_line_def

section \<open>The balance aggregation of update\_stock\<close>

text \<open>
  C3: for every movement type and every quantity (the positive ones among them), the
  delta that \<open>update_stock\<close> applies to the balance of the pair is \<open>+quantity\<close> when the
  direction of the movement type is increase (goods receipt, stock transfer, return from
  customer) and \<open>-quantity\<close> when it is decrease (issue for consumption, issue for
  sales, return to vendor). A pair without a balance row starts from 0. The ids of the
  balance rows are distinct, as uuids are.
\<close>

theorem update_stock_applies_direction:
  assumes m: "find (\<lambda>m. mat_id m = material_id) (materials s) \<noteq> None"
    and l: "find (\<lambda>l. loc_id l = location_id) (locations s) \<noteq> None"
    and d: "distinct (map cs_id (current_stock s))"
  shows "stock_quantity
           (fst (update_stock e material_id location_id quantity movement_type uom s))
           material_id location_id =
         Some ((case stock_quantity s material_id location_id of None \<Rightarrow> 0 | Some c \<Rightarrow> c) +
               (if spec_direction movement_type = increase then quantity else - quantity))"
proof -
  from m obtain material where m': "find (\<lambda>m. mat_id m = material_id) (materials s) = Some material"
    by blast
  from l obtain location where l': "find (\<lambda>l. loc_id l = location_id) (locations s) = Some location"
    by blast
  show ?thesis
  proof (cases "balance_row s material_id location_id")
    case None
    then have "find (\<lambda>r. cs_material_id r = material_id \<and> cs_location_id r = location_id)
       (current_stock s) = None" by (simp add: balance_row_def)
    from find_append_None[OF this] None show ?thesis
      by (simp add: update_stock_create[OF m' l' None] stock_quantity_def balance_row_def
          spec_signed_quantity_def)
  next
    case (Some r)
    then show ?thesis
      by (simp add: update_stock_modify[OF m' l' Some d] stock_quantity_def balance_row_def
          spec_signed_quantity_def find_map_replace)
  qed
qed

theorem update_stock_applies_direction_witness:
  "find (\<lambda>m. mat_id m = ''M1'') (materials stocked_state) \<noteq> None \<and>
   find (\<lambda>l. loc_id l = ''L1'') (locations stocked_state) \<noteq> None \<and>
   distinct (map cs_id (current_stock stocked_state)) \<and>
   stock_quantity
     (fst (update_stock example_env ''M1'' ''L1'' 30 RETURN_TO_VENDOR ''PC'' stocked_state))
     ''M1'' ''L1'' = Some 40 \<and>
   stock_quantity
     (fst (update_stock example_env ''M1'' ''L1'' 30 STOCK_TRANSFER ''PC'' stocked_state))
     ''M1'' ''L1'' = Some 100"
proof -
  have m: "find (\<lambda>m. mat_id m = ''M1'') (materials stocked_state) \<noteq> None"
    by (simp add: stocked_state_def example_state_def example_material_def)
  have l: "find (\<lambda>l. loc_id l = ''L1'') (locations stocked_state) \<noteq> None"
    by (simp add: stocked_state_def example_state_def example_location_def)
  have d: "distinct (map cs_id (current_stock stocked_state))"
    by (simp add: stocked_state_def)
  have q: "stock_quantity stocked_state ''M1'' ''L1'' = Some 70"
    by (simp add: stock_quantity_def balance_row_def stocked_state_def example_row_def)
  from update_stock_applies_direction[OF m l d, of example_env 30 RETURN_TO_VENDOR "''PC''"]
       update_stock_applies_direction[OF m l d, of example_env 30 STOCK_TRANSFER "''PC''"]
       m l d q
  show ?thesis by simp
qed

text \<open>
  C7: \<open>update_stock\<close> enforces no lower bound. For every existing balance and every
  quantity issued with a decreasing movement type, the call succeeds and the balance
  becomes the existing quantity minus the issued one, negative or not: issuing 200
  against a balance of 70 gives \<open>-130\<close>.
\<close>

theorem update_stock_no_lower_bound:
  assumes m: "find (\<lambda>m. mat_id m = material_id) (materials s) \<noteq> None"
    and l: "find (\<lambda>l. loc_id l = location_id) (locations s) \<noteq> None"
    and d: "distinct (map cs_id (current_stock s))"
    and c: "stock_quantity s material_id location_id = Some existing"
    and t: "movement_type \<in> set [GOODS_ISSUE_CONSUMPTION, GOODS_ISSUE_SALES, RETURN_TO_VENDOR]"
  shows "snd (update_stock e material_id location_id quantity movement_type uom s) = Inr () \<and>
         stock_quantity
           (fst (update_stock e material_id location_id quantity movement_type uom s))
           material_id location_id = Some (existing - quantity)"
proof -
  from m obtain material where m': "find (\<lambda>m. mat_id m = material_id) (materials s) = Some material"
    by blast
  from l obtain location where l': "find (\<lambda>l. loc_id l = location_id) (locations s) = Some location"
    by blast
  from c obtain r where r: "balance_row s material_id location_id = Some r"
    and e: "cs_current_quantity r = existing"
    by (auto simp: stock_quantity_def)
  from t have sq: "spec_signed_quantity movement_type quantity = - quantity"
    by (auto simp: spec_signed_quantity_def)
  from r have f: "find (\<lambda>r. cs_material_id r = material_id \<and> cs_location_id r = location_id)
       (current_stock s) = Some r" by (simp add: balance_row_def)
  show ?thesis
    using f e sq
    by (simp add: update_stock_modify[OF m' l' r d] stock_quantity_def balance_row_def
        find_map_replace)
qed

theorem update_stock_no_lower_bound_witness:
  "find (\<lambda>m. mat_id m = ''M1'') (materials stocked_state) \<noteq> None \<and>
   find (\<lambda>l. loc_id l = ''L1'') (locations stocked_state) \<noteq> None \<and>
   distinct (map cs_id (current_stock stocked_state)) \<and>
   stock_quantity stocked_state ''M1'' ''L1'' = Some 70 \<and>
   GOODS_ISSUE_CONSUMPTION \<in> set [GOODS_ISSUE_CONSUMPTION, GOODS_ISSUE_SALES, RETURN_TO_VENDOR] \<and>
   snd (update_stock example_env ''M1'' ''L1'' 200 GOODS_ISSUE_CONSUMPTION ''PC'' stocked_state)
     = Inr () \<and>
   stock_quantity
     (fst (update_stock example_env ''M1'' ''L1'' 200 GOODS_ISSUE_CONSUMPTION ''PC''
        stocked_state))
     ''M1'' ''L1'' = Some (- 130)"
proof -
  have m: "find (\<lambda>m. mat_id m = ''M1'') (materials stocked_state) \<noteq> None"
    by (simp add: stocked_state_def example_state_def example_material_def)
  have l: "find (\<lambda>l. loc_id l = ''L1'') (locations stocked_state) \<noteq> None"
    by (simp add: stocked_state_def example_state_def example_location_def)
  have d: "distinct (map cs_id (current_stock stocked_state))"
    by (simp add: stocked_state_def)
  have q: "stock_quantity stocked_state ''M1'' ''L1'' = Some 70"
    by (simp add: stock_quantity_def balance_row_def stocked_state_def example_row_def)
  have t: "GOODS_ISSUE_CONSUMPTION \<in>
      set [GOODS_ISSUE_CONSUMPTION, GOODS_ISSUE_SALES, RETURN_TO_VENDOR]"
    by simp
  from update_stock_no_lower_bound[OF m l d q t, of example_env 200 "''PC''"] m l d q
  show ?thesis by simp
qed

text \<open>
  C8: applied to a pair that has no balance row, \<open>update_stock\<close> appends exactly one
  row to the balances. Its quantity is the signed delta of this one application (25 for
  a first receipt of 25), its material code and description come from the resolved
  material, its plant code and storage location from the resolved location.
\<close>

theorem update_stock_first_touch:
  assumes m: "find (\<lambda>m. mat_id m = material_id) (materials s) = Some material"
    and l: "find (\<lambda>l. loc_id l = location_id) (locations s) = Some location"
    and n: "balance_row s material_id location_id = None"
  shows "snd (update_stock e material_id location_id quantity movement_type uom s) = Inr () \<and>
         current_stock (fst (update_stock e material_id location_id quantity movement_type uom s)) =
           current_stock s @
             [\<lparr>cs_id = uuid4 e (calls s),
               cs_material_id = material_id,
               cs_material_code = mat_material_code material,
               cs_material_description = mat_material_description material,
               cs_location_id = location_id,
               cs_plant_code = loc_plant_code location,
               cs_storage_location = loc_storage_location location,
               cs_current_quantity =
                 (if spec_direction movement_type = increase then quantity else - quantity),
               cs_unit_of_measure = uom,
               cs_last_updated = utcnow e (calls s + 1)\<rparr>]"
  by (simp add: update_stock_create[OF m l n] spec_signed_quantity_def)

theorem update_stock_first_touch_witness:
  "find (\<lambda>m. mat_id m = ''M1'') (materials example_state) = Some example_material \<and>
   find (\<lambda>l. loc_id l = ''L1'') (locations example_state) = Some example_location \<and>
   balance_row example_state ''M1'' ''L1'' = None \<and>
   snd (update_stock example_env ''M1'' ''L1'' 25 GOODS_RECEIPT ''PC'' example_state) = Inr () \<and>
   current_stock (fst (update_stock example_env ''M1'' ''L1'' 25 GOODS_RECEIPT ''PC''
       example_state)) =
     [\<lparr>cs_id = uuid4 example_env 0, cs_material_id = ''M1'', cs_material_code = ''MAT001'',
       cs_material_description = ''Test Material 001'', cs_location_id = ''L1'',
       cs_plant_code = ''P001'', cs_storage_location = ''SL01'', cs_current_quantity = 25,
       cs_unit_of_measure = ''PC'', cs_last_updated = utcnow example_env 1\<rparr>]"
proof -
  have m: "find (\<lambda>m. mat_id m = ''M1'') (materials example_state) = Some example_material"
    by (simp add: example_state_def example_material_def)
  have l: "find (\<lambda>l. loc_id l = ''L1'') (locations example_state) = Some example_location"
    by (simp add: example_state_def example_location_def)
  have n: "balance_row example_state ''M1'' ''L1'' = None"
    by (simp add: balance_row_def example_state_def)
  have c: "calls example_state = 0" "current_stock example_state = []"
    by (simp_all add: example_state_def)
  from update_stock_first_touch[OF m l n, of example_env 25 GOODS_RECEIPT "''PC''"] m l n c
  show ?thesis by (simp add: example_material_def example_location_def)
qed

text \<open>
  C9: applied to a pair that has a balance row, \<open>update_stock\<close> changes the quantity
  of that row (the existing quantity plus the signed delta) and its time of last update,
  and nothing else: the other fields of the row, the other rows and the other
  collections stay as they were. The ids of the balance rows are distinct, as uuids are.
\<close>

theorem update_stock_touches_one_row:
  assumes m: "find (\<lambda>m. mat_id m = material_id) (materials s) \<noteq> None"
    and l: "find (\<lambda>l. loc_id l = location_id) (locations s) \<noteq> None"
    and r: "balance_row s material_id location_id = Some r"
    and d: "distinct (map cs_id (current_stock s))"
  shows "fst (update_stock e material_id location_id quantity movement_type uom s) =
         s\<lparr>current_stock :=
              map (\<lambda>x. if x = r
                     then r\<lparr>cs_current_quantity :=
                              cs_current_quantity r +
                                (if spec_direction movement_type = increase
                                 then quantity else - quantity),
                            cs_last_updated := utcnow e (calls s)\<rparr>
                     else x) (current_stock s),
            calls := calls s + 1\<rparr>"
proof -
  from m obtain material where m': "find (\<lambda>m. mat_id m = material_id) (materials s) = Some material"
    by blast
  from l obtain location where l': "find (\<lambda>l. loc_id l = location_id) (locations s) = Some location"
    by blast
  show ?thesis
    by (simp add: update_stock_modify[OF m' l' r d] spec_signed_quantity_def)
qed

theorem update_stock_touches_one_row_witness:
  "find (\<lambda>m. mat_id m = ''M1'') (materials stocked_state) \<noteq> None \<and>
   find (\<lambda>l. loc_id l = ''L1'') (locations stocked_state) \<noteq> None \<and>
   balance_row stocked_state ''M1'' ''L1'' = Some example_row \<and>
   distinct (map cs_id (current_stock stocked_state)) \<and>
   current_stock (fst (update_stock example_env ''M1'' ''L1'' 30 GOODS_ISSUE_SALES ''KG''
       stocked_state)) =
     [\<lparr>cs_id = ''S1'', cs_material_id = ''M1'', cs_material_code = ''MAT001'',
       cs_material_description = ''Test Material 001'', cs_location_id = ''L1'',
       cs_plant_code = ''P001'', cs_storage_location = ''SL01'', cs_current_quantity = 40,
       cs_unit_of_measure = ''PC'', cs_last_updated = utcnow example_env 0\<rparr>]"
proof -
  have m: "find (\<lambda>m. mat_id m = ''M1'') (materials stocked_state) \<noteq> None"
    by (simp add: stocked_state_def example_state_def example_material_def)
  have l: "find (\<lambda>l. loc_id l = ''L1'') (locations stocked_state) \<noteq> None"
    by (simp add: stocked_state_def example_state_def example_location_def)
  have r: "balance_row stocked_state ''M1'' ''L1'' = Some example_row"
    by (simp add: balance_row_def stocked_state_def example_row_def)
  have d: "distinct (map cs_id (current_stock stocked_state))"
    by (simp add: stocked_state_def)
  have c: "calls stocked_state = 0" "current_stock stocked_state = [example_row]"
    by (simp_all add: stocked_state_def example_state_def)
  from update_stock_touches_one_row[OF m l r d, of example_env 30 GOODS_ISSUE_SALES "''KG''"]
    m l r d c
  show ?thesis by (simp add: example_row_def)
qed

section \<open>Posting a document\<close>

text \<open>
  C6: when the location id of the document does not resolve to a location, the posting
  of a goods receipt and of a goods issue fails with the not-found error and returns the
  state it was given: no document is stored, no ledger entry is appended, no balance row
  is created or modified.
\<close>

theorem unknown_location_rejected:
  "(find (\<lambda>l. loc_id l = grc_location_id gr) (locations s) = None \<longrightarrow>
      create_goods_receipt e gr s = (s, Inl (HTTPException 404 ''Location not found''))) \<and>
   (find (\<lambda>l. loc_id l = gic_location_id gi) (locations s) = None \<longrightarrow>
      create_goods_issue e gi s = (s, Inl (HTTPException 404 ''Location not found'')))"
  by (simp add: create_goods_receipt_def create_goods_issue_def)

theorem unknown_location_rejected_witness:
  "find (\<lambda>l. loc_id l = grc_location_id (receipt_of ''L9'' [receipt_line ''M1'' 5]))
     (locations stocked_state) = None \<and>
   create_goods_receipt example_env (receipt_of ''L9'' [receipt_line ''M1'' 5]) stocked_state =
     (stocked_state, Inl (HTTPException 404 ''Location not found'')) \<and>
   find (\<lambda>l. loc_id l = gic_location_id (issue_of GOODS_ISSUE_SALES ''L9'' [issue_line ''M1'' 5]))
     (locations stocked_state) = None \<and>
   create_goods_issue example_env (issue_of GOODS_ISSUE_SALES ''L9'' [issue_line ''M1'' 5])
     stocked_state =
     (stocked_state, Inl (HTTPException 404 ''Location not found''))"
proof -
  have r: "find (\<lambda>l. loc_id l = grc_location_id (receipt_of ''L9'' [receipt_line ''M1'' 5]))
     (locations stocked_state) = None"
    by (simp add: receipt_of_def stocked_state_def example_state_def example_location_def)
  have i: "find (\<lambda>l. loc_id l =
        gic_location_id (issue_of GOODS_ISSUE_SALES ''L9'' [issue_line ''M1'' 5]))
     (locations stocked_state) = None"
    by (simp add: issue_of_def stocked_state_def example_state_def example_location_def)
  from unknown_location_rejected[of "receipt_of ''L9'' [receipt_line ''M1'' 5]" stocked_state
      example_env "issue_of GOODS_ISSUE_SALES ''L9'' [issue_line ''M1'' 5]"] r i
  show ?thesis by blast
qed

text \<open>
  C10: a goods receipt or goods issue with an empty list of items should be accepted:
  with a resolvable location the call should succeed and return the document it
  stored. The number of items is indeed not checked, and the ledger and the balances
  stay as they were, but the call does not succeed: the insert of the document raises
  \<open>InvalidDocument\<close>, and no document is stored.
\<close>

theorem empty_document_fails:
  "grc_items (receipt_of ''L1'' []) = [] \<and>
   create_goods_receipt example_env (receipt_of ''L1'' []) stocked_state =
     (stocked_state\<lparr>calls := calls stocked_state + 3\<rparr>, Inl InvalidDocument) \<and>
   gic_items (issue_of GOODS_ISSUE_SALES ''L1'' []) = [] \<and>
   create_goods_issue example_env (issue_of GOODS_ISSUE_SALES ''L1'' []) stocked_state =
     (stocked_state\<lparr>calls := calls stocked_state + 3\<rparr>, Inl InvalidDocument)"
  by (simp add: create_goods_receipt_def create_goods_issue_def insert_one_GoodsReceipt
      insert_one_GoodsIssue example_defs stocked_state_def)

text \<open>
  C5: a line whose material id does not resolve should produce no ledger entry and no
  balance change, while the other lines of the document are processed and the posting
  returns success. A receipt and an issue at a resolvable location with an unresolved
  line and a resolved one do not return success: the insert of the document raises
  \<open>InvalidDocument\<close> before the loop, so the resolved line is not processed either,
  and the ledger and the balances stay empty.
\<close>

theorem posting_with_unresolved_line_fails:
  "snd (create_goods_receipt example_env
      (receipt_of ''L1'' [receipt_line ''M9'' 7, receipt_line ''M1'' 3]) example_state) =
     Inl InvalidDocument \<and>
   stock_movements (fst (create_goods_receipt example_env
      (receipt_of ''L1'' [receipt_line ''M9'' 7, receipt_line ''M1'' 3]) example_state)) = [] \<and>
   current_stock (fst (create_goods_receipt example_env
      (receipt_of ''L1'' [receipt_line ''M9'' 7, receipt_line ''M1'' 3]) example_state)) = [] \<and>
   snd (create_goods_issue example_env
      (issue_of GOODS_ISSUE_SALES ''L1'' [issue_line ''M9'' 7, issue_line ''M1'' 3])
      example_state) = Inl InvalidDocument \<and>
   stock_movements (fst (create_goods_issue example_env
      (issue_of GOODS_ISSUE_SALES ''L1'' [issue_line ''M9'' 7, issue_line ''M1'' 3])
      example_state)) = [] \<and>
   current_stock (fst (create_goods_issue example_env
      (issue_of GOODS_ISSUE_SALES ''L1'' [issue_line ''M9'' 7, issue_line ''M1'' 3])
      example_state)) = []"
  by (simp add: create_goods_receipt_def create_goods_issue_def insert_one_GoodsReceipt
      insert_one_GoodsIssue example_defs)

text \<open>
  C4, as the code has it: a quantity is never what a posting is rejected for. No check
  on quantities exists, and whether a posting fails, and with which error, is the same
  for a document and for the same document with any other quantities in its lines, the
  non-positive ones among them.
\<close>

theorem quantity_never_decides_rejection:
  "map_sum id (\<lambda>d. ())
     (snd (create_goods_receipt e
        (gr\<lparr>grc_items := map (\<lambda>i. i\<lparr>gri_quantity := q i\<rparr>) (grc_items gr)\<rparr>) s)) =
   map_sum id (\<lambda>d. ()) (snd (create_goods_receipt e gr s)) \<and>
   map_sum id (\<lambda>d. ())
     (snd (create_goods_issue e
        (gi\<lparr>gic_items := map (\<lambda>i. i\<lparr>gii_quantity := q' i\<rparr>) (gic_items gi)\<rparr>) s)) =
   map_sum id (\<lambda>d. ()) (snd (create_goods_issue e gi s))"
proof
  show "map_sum id (\<lambda>d. ())
     (snd (create_goods_receipt e
        (gr\<lparr>grc_items := map (\<lambda>i. i\<lparr>gri_quantity := q i\<rparr>) (grc_items gr)\<rparr>) s)) =
   map_sum id (\<lambda>d. ()) (snd (create_goods_receipt e gr s))"
    by (cases "find (\<lambda>l. loc_id l = grc_location_id gr) (locations s)")
      (simp_all add: create_goods_receipt_def insert_one_GoodsReceipt)
  show "map_sum id (\<lambda>d. ())
     (snd (create_goods_issue e
        (gi\<lparr>gic_items := map (\<lambda>i. i\<lparr>gii_quantity := q' i\<rparr>) (gic_items gi)\<rparr>) s)) =
   map_sum id (\<lambda>d. ()) (snd (create_goods_issue e gi s))"
    by (cases "find (\<lambda>l. loc_id l = gic_location_id gi) (locations s)")
      (simp_all add: create_goods_issue_def insert_one_GoodsIssue)
qed

text \<open>
  The claim as it was stated, that a line with a non-positive quantity is rejected with
  a validation error, fails on a receipt of quantity \<open>-5\<close>: at an unknown location it
  is answered with the not-found error of the location, and at a known location with
  the same error as the receipt of quantity \<open>5\<close>.
\<close>

theorem non_positive_quantity_counterexample:
  "gri_quantity (receipt_line ''M1'' (- 5)) \<le> 0 \<and>
   create_goods_receipt example_env (receipt_of ''L9'' [receipt_line ''M1'' (- 5)])
       example_state =
     (example_state, Inl (HTTPException 404 ''Location not found'')) \<and>
   snd (create_goods_receipt example_env (receipt_of ''L1'' [receipt_line ''M1'' (- 5)])
       example_state) = Inl InvalidDocument \<and>
   snd (create_goods_receipt example_env (receipt_of ''L1'' [receipt_line ''M1'' 5])
       example_state) = Inl InvalidDocument"
  by (simp add: create_goods_receipt_def insert_one_GoodsReceipt example_defs)

section \<open>The ledger entries of a posting\<close>

text \<open>
  C2: the ledger entry of a line should carry the raw quantity when the direction of
  the movement type is increase; a goods issue posted with movement type return from
  customer should record an entry of positive quantity. Such an issue, one line of
  quantity 10 at a resolvable location, records no ledger entry at all: the insert of
  the goods issue raises \<open>InvalidDocument\<close> before the loop over the lines, where the
  sign derivation of the specification asks for an entry of \<open>+10\<close>.
\<close>

theorem issue_stores_no_ledger_entry:
  "snd (create_goods_issue example_env
      (issue_of RETURN_FROM_CUSTOMER ''L1'' [issue_line ''M1'' 10]) example_state) =
     Inl InvalidDocument \<and>
   stock_movements (fst (create_goods_issue example_env
      (issue_of RETURN_FROM_CUSTOMER ''L1'' [issue_line ''M1'' 10]) example_state)) = [] \<and>
   spec_signed_quantity RETURN_FROM_CUSTOMER 10 = 10"
  by (simp add: create_goods_issue_def insert_one_GoodsIssue example_defs
      spec_signed_quantity_def)

section \<open>The balance and the ledger\<close>



end
